theory Spec2Isabelle
  imports Complex_Main
begin

section \<open>The script \<open>examples/bins/plot_ah_found.py\<close>\<close>

text \<open>
  The script is a single \<open>__main__\<close> block. It parses the command line, opens a simulation
  directory, draws one scatter series per requested apparent horizon that the simulation
  has, fixes the y axis and saves the figure. The model below follows it line by line.

  What the block touches is made explicit:
  \<^item> the parsed command line is a record \<open>args\<close>;
  \<^item> the simulation directory is a parameter \<open>SimDir\<close>, a function from the directory path and
    the symlink flag to either an exception or the horizons object (\<open>sim.horizons\<close>);
  \<^item> the current figure of \<open>matplotlib.pyplot\<close>, the lines written by the logger and the files
    written to disk are the fields of a record \<open>world\<close>, passed from statement to statement;
  \<^item> the wall clock read by the log format \<open>%(asctime)s\<close> is a parameter \<open>clock\<close>;
  \<^item> an exception ends the run: the result is the world reached and the exception, if any.

  The model starts at line 50, from the parsed \<open>args\<close>: \<open>setup_matplotlib\<close> and the
  construction of the parser (lines 33--48) only configure the collaborators. The option
  \<open>nargs="+"\<close> makes \<open>args.horizons\<close> non-empty on every real command line; the model does not
  assume it, and \<open>min\<close> raises on the empty list as in Python. The calls of \<open>pyplot\<close> are
  recorded as they are made; what the library draws from them is its own business.
\<close>

subsection \<open>Python builtins\<close>

text \<open>The exceptions of a run: \<open>ValueError\<close> from \<open>min\<close> and \<open>max\<close>, and whatever a
  collaborator raises, by its name.\<close>

datatype error = ValueError | Raised string

text \<open>\<open>str(h)\<close> for an \<open>int\<close>: the digits are produced from the least significant end,
  with a minus sign in front of a negative number. \<open>digit_char\<close> is only used below ten.\<close>

definition digit_char :: "nat \<Rightarrow> char" where
  "digit_char d = ''0123456789'' ! d"

function digits_loop :: "nat \<Rightarrow> string \<Rightarrow> string" where
  "digits_loop n acc =
     (if n < 10 then digit_char n # acc
      else digits_loop (n div 10) (digit_char (n mod 10) # acc))"
  by pat_completeness auto
termination
  by (relation "measure fst") auto

declare digits_loop.simps [simp del]

definition py_str :: "int \<Rightarrow> string" where
  "py_str i = (if i < 0 then CHR ''-'' # digits_loop (nat (- i)) [] else digits_loop (nat i) [])"

text \<open>\<open>sep.join(items)\<close>: the first item, then the separator and the next item, in turn.\<close>

fun join_loop :: "string \<Rightarrow> string \<Rightarrow> string list \<Rightarrow> string" where
  "join_loop sep acc [] = acc"
| "join_loop sep acc (item # items) = join_loop sep (acc @ sep @ item) items"

definition py_join :: "string \<Rightarrow> string list \<Rightarrow> string" where
  "py_join sep items = (case items of [] \<Rightarrow> [] | item # rest \<Rightarrow> join_loop sep item rest)"

text \<open>\<open>str\<close> of a list of integers, as an f-string prints it: \<open>[1, 2, 3]\<close>.\<close>

definition py_str_list :: "int list \<Rightarrow> string" where
  "py_str_list hs = ''['' @ py_join '', '' (map py_str hs) @ '']''"

text \<open>\<open>min\<close> and \<open>max\<close> of a list raise \<open>ValueError\<close> on the empty list.\<close>

definition py_min :: "int list \<Rightarrow> error + int" where
  "py_min hs = (case hs of [] \<Rightarrow> Inl ValueError | h # rest \<Rightarrow> Inr (fold min rest h))"

definition py_max :: "int list \<Rightarrow> error + int" where
  "py_max hs = (case hs of [] \<Rightarrow> Inl ValueError | h # rest \<Rightarrow> Inr (fold max rest h))"

subsection \<open>Command line, simulation data, figure\<close>

text \<open>The attributes of \<open>args\<close> that the block reads. \<open>horizons\<close> comes from
  \<open>-a/--horizons\<close> (\<open>type=int\<close>, \<open>nargs="+"\<close>); the others come from the shared parser of
  \<open>kuibit.argparse_helper\<close>. \<open>figname\<close> is \<open>None\<close> when no name is given.\<close>

record args =
  verbose :: bool
  horizons :: "int list"
  figname :: "string option"
  datadir :: string
  ignore_symlinks :: bool
  outdir :: string
  fig_extension :: string

text \<open>The horizon object returned by \<open>get_apparent_horizon\<close>: the block reads only
  \<open>current_horizon.ah.cctk_iteration.t\<close>, the times at which the horizon was found.\<close>

record 't OneHorizon =
  ah_cctk_iteration_t :: "'t list"

text \<open>\<open>sim.horizons\<close>: the available apparent horizons and the accessor, which may raise.\<close>

record 't HorizonsDir =
  available_apparent_horizons :: "int list"
  get_apparent_horizon :: "int \<Rightarrow> error + 't OneHorizon"

text \<open>One call of \<open>plt.scatter(x, y, marker=..., s=...)\<close>. The size is the decimal literal
  of the source.\<close>

record 't scatter =
  sc_x :: "'t list"
  sc_y :: "int list"
  sc_marker :: string
  sc_s :: real

record 't figure =
  scatters :: "'t scatter list"
  xlabel :: string
  ylabel :: string
  y_minor_left :: bool
  ylim :: "(int \<times> int) option"
  yticks :: "int list option"

record log_record =
  asctime :: string
  levelno :: nat
  message :: string

record 't saved_file =
  file_path :: string
  file_figure :: "'t figure"

record 't world =
  stderr :: "log_record list"
  gcf :: "'t figure"
  files :: "'t saved_file list"

definition new_figure :: "'t figure" where
  "new_figure = \<lparr>scatters = [], xlabel = [], ylabel = [], y_minor_left = True,
     ylim = None, yticks = None\<rparr>"

definition new_world :: "'t world" where
  "new_world = \<lparr>stderr = [], gcf = new_figure, files = []\<rparr>"

subsection \<open>Logging\<close>

text \<open>The levels of \<open>logging\<close>. The logger has level \<open>DEBUG\<close> only when \<open>args.verbose\<close> is set
  (line 58); otherwise its effective level is the root logger's, \<open>WARNING\<close>.
  \<open>logger.debug\<close> writes a line only when \<open>DEBUG\<close> is enabled; the line carries the time of
  the call (the format of line 57).\<close>

definition DEBUG :: nat where
  "DEBUG = 10"

definition WARNING :: nat where
  "WARNING = 30"

definition getLogger :: "args \<Rightarrow> nat" where
  "getLogger a = (if verbose a then DEBUG else WARNING)"

definition debug :: "nat \<Rightarrow> (nat \<Rightarrow> string) \<Rightarrow> string \<Rightarrow> 't world \<Rightarrow> 't world" where
  "debug logger clock msg w =
     (if logger \<le> DEBUG
      then w\<lparr>stderr := stderr w @
             [\<lparr>asctime = clock (length (stderr w)), levelno = DEBUG, message = msg\<rparr>]\<rparr>
      else w)"

subsection \<open>Plotting calls\<close>

text \<open>Each call of \<open>pyplot\<close> changes the current figure and nothing else.\<close>

definition plt_scatter :: "'t list \<Rightarrow> int list \<Rightarrow> string \<Rightarrow> real \<Rightarrow> 't world \<Rightarrow> 't world" where
  "plt_scatter xs ys m sz w =
     w\<lparr>gcf := (gcf w)\<lparr>scatters := scatters (gcf w) @
          [\<lparr>sc_x = xs, sc_y = ys, sc_marker = m, sc_s = sz\<rparr>]\<rparr>\<rparr>"

definition plt_ylabel :: "string \<Rightarrow> 't world \<Rightarrow> 't world" where
  "plt_ylabel l w = w\<lparr>gcf := (gcf w)\<lparr>ylabel := l\<rparr>\<rparr>"

definition plt_xlabel :: "string \<Rightarrow> 't world \<Rightarrow> 't world" where
  "plt_xlabel l w = w\<lparr>gcf := (gcf w)\<lparr>xlabel := l\<rparr>\<rparr>"

definition tick_params_y_minor :: "bool \<Rightarrow> 't world \<Rightarrow> 't world" where
  "tick_params_y_minor left w = w\<lparr>gcf := (gcf w)\<lparr>y_minor_left := left\<rparr>\<rparr>"

definition plt_ylim :: "int \<Rightarrow> int \<Rightarrow> 't world \<Rightarrow> 't world" where
  "plt_ylim lo hi w = w\<lparr>gcf := (gcf w)\<lparr>ylim := Some (lo, hi)\<rparr>\<rparr>"

definition plt_yticks :: "int list \<Rightarrow> 't world \<Rightarrow> 't world" where
  "plt_yticks ticks w = w\<lparr>gcf := (gcf w)\<lparr>yticks := Some ticks\<rparr>\<rparr>"

subsection \<open>Helpers of \<open>kuibit.visualize_matplotlib\<close>\<close>

text \<open>Modelled from the spec: \<open>get_figname\<close> is not part of the script. The spec has an
  "output figure name override" among the options and a default name used "when no
  override is given".\<close>

definition get_figname :: "args \<Rightarrow> string \<Rightarrow> string" where
  "get_figname a dflt = (case figname a of None \<Rightarrow> dflt | Some n \<Rightarrow> n)"

text \<open>Modelled from the spec: \<open>save_from_dir_filename_ext\<close> is not part of the script. The
  spec gives its effect: "one image file at \<open><outdir>/<figname>.<extension>\<close>", holding the
  current figure.\<close>

definition save_from_dir_filename_ext :: "string \<Rightarrow> string \<Rightarrow> string \<Rightarrow> 't world \<Rightarrow> 't world" where
  "save_from_dir_filename_ext dir name ext w =
     w\<lparr>files := files w @
          [\<lparr>file_path = dir @ ''/'' @ name @ ''.'' @ ext, file_figure = gcf w\<rparr>]\<rparr>"

subsection \<open>The block\<close>

text \<open>Lines 60--61: the figure name.\<close>

definition default_figname :: "args \<Rightarrow> string" where
  "default_figname a =
     (let horizons_str = py_join ''_'' (map py_str (horizons a))
      in ''ah_'' @ horizons_str @ ''_found'')"

definition figname_of :: "args \<Rightarrow> string" where
  "figname_of a = get_figname a (default_figname a)"

text \<open>Lines 73--82: the loop over the requested horizons.\<close>

fun plot_horizons ::
  "nat \<Rightarrow> (nat \<Rightarrow> string) \<Rightarrow> 't HorizonsDir \<Rightarrow> int list \<Rightarrow> 't world \<Rightarrow> 't world \<times> error option"
where
  "plot_horizons logger clock sim_hor [] w = (w, None)"
| "plot_horizons logger clock sim_hor (ah # rest) w =
     (if ah \<in> set (available_apparent_horizons sim_hor) then
        (let w1 = debug logger clock (''Reading horizon '' @ py_str ah) w
         in case get_apparent_horizon sim_hor ah of
              Inl e \<Rightarrow> (w1, Some e)
            | Inr current_horizon \<Rightarrow>
                (let time_found = ah_cctk_iteration_t current_horizon;
                     ah_num = concat (replicate (length time_found) [ah]);
                     w2 = plt_scatter time_found ah_num ''o'' 0.1 w1
                 in plot_horizons logger clock sim_hor rest w2))
      else plot_horizons logger clock sim_hor rest w)"

text \<open>Lines 84--98: labels, ticks, limits, saving.\<close>

definition finish_plot ::
  "nat \<Rightarrow> (nat \<Rightarrow> string) \<Rightarrow> args \<Rightarrow> string \<Rightarrow> 't world \<Rightarrow> 't world \<times> error option"
where
  "finish_plot logger clock a name w =
     (let w1 = debug logger clock ''Plotting'' w;
          w2 = plt_ylabel ''Apparent horizon'' w1;
          w3 = plt_xlabel ''Time'' w2;
          w4 = tick_params_y_minor False w3
      in case py_min (horizons a) of
           Inl e \<Rightarrow> (w4, Some e)
         | Inr lo \<Rightarrow>
            (case py_max (horizons a) of
               Inl e \<Rightarrow> (w4, Some e)
             | Inr hi \<Rightarrow>
                (let w5 = plt_ylim (lo - 1) (hi + 1) w4;
                     w6 = plt_yticks (horizons a) w5;
                     w7 = debug logger clock ''Plotted'' w6;
                     w8 = debug logger clock ''Saving'' w7;
                     w9 = save_from_dir_filename_ext (outdir a) name (fig_extension a) w8
                 in (debug logger clock ''DONE'' w9, None))))"

text \<open>Lines 50--98.\<close>

definition main ::
  "(string \<Rightarrow> bool \<Rightarrow> error + 't HorizonsDir) \<Rightarrow> (nat \<Rightarrow> string) \<Rightarrow> args \<Rightarrow> 't world \<times> error option"
where
  "main SimDir clock a =
     (let logger = getLogger a;
          name = figname_of a;
          w1 = debug logger clock (''Figname: '' @ name) new_world
      in case SimDir (datadir a) (ignore_symlinks a) of
           Inl e \<Rightarrow> (w1, Some e)
         | Inr sim_hor \<Rightarrow>
            (let w2 = debug logger clock ''Prepared SimDir'' w1;
                 w3 = debug logger clock
                        (''Apparent horizons available: '' @
                           py_str_list (available_apparent_horizons sim_hor)) w2
             in case plot_horizons logger clock sim_hor (horizons a) w3 of
                  (w4, Some e) \<Rightarrow> (w4, Some e)
                | (w4, None) \<Rightarrow> finish_plot logger clock a name w4))"

subsection \<open>The words of the specification\<close>

text \<open>The decimal representation of an integer, most significant digit first, and its
  value read back.\<close>

function decimal_nat :: "nat \<Rightarrow> string" where
  "decimal_nat n =
     (if n < 10 then [digit_char n] else decimal_nat (n div 10) @ [digit_char (n mod 10)])"
  by pat_completeness auto
termination
  by (relation "measure id") auto

declare decimal_nat.simps [simp del]

definition decimal :: "int \<Rightarrow> string" where
  "decimal i = (if i < 0 then ''-'' @ decimal_nat (nat \<bar>i\<bar>) else decimal_nat (nat i))"




text \<open>Strings joined with an underscore between neighbours, and the pieces of a string
  between its underscores (\<open>str.split\<close> with a one-character separator).\<close>

fun underscore_joined :: "string list \<Rightarrow> string" where
  "underscore_joined [] = []"
| "underscore_joined [piece] = piece"
| "underscore_joined (piece # next_piece # pieces) =
     piece @ ''_'' @ underscore_joined (next_piece # pieces)"


text \<open>The requested horizons that the simulation has, in request order.\<close>

definition requested_available :: "'t HorizonsDir \<Rightarrow> int list \<Rightarrow> int list" where
  "requested_available sim_hor hs =
     filter (\<lambda>ah. ah \<in> set (available_apparent_horizons sim_hor)) hs"

text \<open>The data provider answers for every requested horizon that it lists as available.\<close>

definition provider_answers :: "'t HorizonsDir \<Rightarrow> int list \<Rightarrow> bool" where
  "provider_answers sim_hor hs =
     (\<forall>ah \<in> set (requested_available sim_hor hs). \<not> isl (get_apparent_horizon sim_hor ah))"

text \<open>The series that the times of one horizon give: every point at the height of the
  horizon's number.\<close>

definition series_of :: "'t HorizonsDir \<Rightarrow> int \<Rightarrow> 't scatter" where
  "series_of sim_hor ah =
     (let found = ah_cctk_iteration_t (projr (get_apparent_horizon sim_hor ah))
      in \<lparr>sc_x = found, sc_y = replicate (length found) ah, sc_marker = ''o'', sc_s = 0.1\<rparr>)"

text \<open>The path of the image file, from the command line alone.\<close>

definition output_path :: "args \<Rightarrow> string" where
  "output_path a = outdir a @ ''/'' @ figname_of a @ ''.'' @ fig_extension a"

text \<open>Two worlds that differ at most in the times stamped on their log lines.\<close>

definition same_but_time :: "'t world \<Rightarrow> 't world \<Rightarrow> bool" where
  "same_but_time w w' \<longleftrightarrow>
     gcf w = gcf w' \<and> files w = files w' \<and>
     map message (stderr w) = map message (stderr w') \<and>
     map levelno (stderr w) = map levelno (stderr w')"

subsection \<open>A sample run\<close>

text \<open>The example of the specification: the simulation has horizons 1, 2 and 3, and horizons
  2 and 5 are requested.\<close>

definition example_horizons :: "real HorizonsDir" where
  "example_horizons =
     \<lparr>available_apparent_horizons = [1, 2, 3],
      get_apparent_horizon = (\<lambda>ah.
        if ah = 1 then Inr \<lparr>ah_cctk_iteration_t = [0, 0.5]\<rparr>
        else if ah = 2 then Inr \<lparr>ah_cctk_iteration_t = [0.5, 1, 1.5]\<rparr>
        else if ah = 3 then Inr \<lparr>ah_cctk_iteration_t = []\<rparr>
        else Inl (Raised ''KeyError''))\<rparr>"

definition example_SimDir :: "string \<Rightarrow> bool \<Rightarrow> error + real HorizonsDir" where
  "example_SimDir dir ignore = Inr example_horizons"

definition example_args :: args where
  "example_args =
     \<lparr>verbose = True, horizons = [2, 5], figname = None, datadir = ''sim'',
      ignore_symlinks = False, outdir = ''.'', fig_extension = ''png''\<rparr>"

definition example_clock :: "nat \<Rightarrow> string" where
  "example_clock n = ''12:00:0'' @ py_str (int n)"

text \<open>A second run of the same command: later, and on a simulation that has only
  horizon 5.\<close>

definition later_clock :: "nat \<Rightarrow> string" where
  "later_clock n = ''13:30:0'' @ py_str (int n)"

definition other_horizons :: "real HorizonsDir" where
  "other_horizons =
     \<lparr>available_apparent_horizons = [5],
      get_apparent_horizon = (\<lambda>ah.
        if ah = 5 then Inr \<lparr>ah_cctk_iteration_t = [2]\<rparr> else Inl (Raised ''KeyError''))\<rparr>"

definition other_SimDir :: "string \<Rightarrow> bool \<Rightarrow> error + real HorizonsDir" where
  "other_SimDir dir ignore = Inr other_horizons"

section \<open>Properties\<close>

subsection \<open>Strings\<close>

lemma digits_loop_decimal: "digits_loop n acc = decimal_nat n @ acc"
proof (induction n acc rule: digits_loop.induct)
  case (1 n acc)
  show ?case
  proof (cases "n < 10")
    case True
    then show ?thesis by (simp add: digits_loop.simps[of n] decimal_nat.simps[of n])
  next
    case False
    with 1 show ?thesis by (simp add: digits_loop.simps[of n] decimal_nat.simps[of n])
  qed
qed

lemma py_str_decimal: "py_str i = decimal i"
  by (simp add: py_str_def decimal_def digits_loop_decimal)

lemma underscore_joined_append: "underscore_joined ((a @ b) # ps) = a @ underscore_joined (b # ps)"
  by (cases ps) simp_all

lemma join_loop_underscore: "join_loop ''_'' acc items = underscore_joined (acc # items)"
proof (induction items arbitrary: acc)
  case Nil
  show ?case by simp
next
  case (Cons item items)
  have "join_loop ''_'' acc (item # items) = underscore_joined ((acc @ ''_'' @ item) # items)"
    using Cons.IH by simp
  also have "\<dots> = acc @ ''_'' @ underscore_joined (item # items)"
    using underscore_joined_append[of acc "''_'' @ item" items]
          underscore_joined_append[of "''_''" item items] by simp
  finally show ?case by simp
qed

lemma py_join_underscore: "py_join ''_'' items = underscore_joined items"
  by (cases items) (simp_all add: py_join_def join_loop_underscore)

















lemma default_figname_spec:
  "default_figname a = ''ah_'' @ underscore_joined (map decimal (horizons a)) @ ''_found''"
proof -
  have "py_str = decimal"
    by (rule ext) (rule py_str_decimal)
  then show ?thesis
    by (simp add: default_figname_def py_join_underscore)
qed



subsection \<open>The loop over the requested horizons\<close>

lemma concat_replicate_single: "concat (replicate n [v]) = replicate n v"
  by (induction n) simp_all

lemma py_min_Min: "hs \<noteq> [] \<Longrightarrow> py_min hs = Inr (Min (set hs))"
  by (cases hs) (simp_all add: py_min_def Min.set_eq_fold[symmetric])

lemma py_max_Max: "hs \<noteq> [] \<Longrightarrow> py_max hs = Inr (Max (set hs))"
  by (cases hs) (simp_all add: py_max_def Max.set_eq_fold[symmetric])

lemma debug_keeps [simp]:
  "gcf (debug lg clk msg w) = gcf w" "files (debug lg clk msg w) = files w"
  by (simp_all add: debug_def)


lemma debug_messages:
  "map message (stderr (debug lg clk msg w)) =
     map message (stderr w) @ (if lg \<le> DEBUG then [msg] else [])"
  by (simp add: debug_def)

lemma debug_levels:
  "map levelno (stderr (debug lg clk msg w)) =
     map levelno (stderr w) @ (if lg \<le> DEBUG then [DEBUG] else [])"
  by (simp add: debug_def)

lemma plt_scatter_effect [simp]:
  "gcf (plt_scatter xs ys m sz w) =
     (gcf w)\<lparr>scatters := scatters (gcf w) @ [\<lparr>sc_x = xs, sc_y = ys, sc_marker = m, sc_s = sz\<rparr>]\<rparr>"
  "files (plt_scatter xs ys m sz w) = files w"
  "stderr (plt_scatter xs ys m sz w) = stderr w"
  by (simp_all add: plt_scatter_def)

lemma provider_answers_Cons:
  "provider_answers sim_hor (ah # rest) \<longleftrightarrow>
     (ah \<in> set (available_apparent_horizons sim_hor) \<longrightarrow> \<not> isl (get_apparent_horizon sim_hor ah)) \<and>
     provider_answers sim_hor rest"
  by (auto simp: provider_answers_def requested_available_def)

lemma plot_horizons_answers:
  "provider_answers sim_hor hs \<Longrightarrow>
     snd (plot_horizons lg clk sim_hor hs w) = None \<and>
     gcf (fst (plot_horizons lg clk sim_hor hs w)) =
       (gcf w)\<lparr>scatters := scatters (gcf w) @
                 map (series_of sim_hor) (requested_available sim_hor hs)\<rparr> \<and>
     files (fst (plot_horizons lg clk sim_hor hs w)) = files w"
proof (induction hs arbitrary: w)
  case Nil
  show ?case by (simp add: requested_available_def)
next
  case (Cons ah rest)
  from Cons.prems have rest: "provider_answers sim_hor rest"
    by (simp add: provider_answers_Cons)
  show ?case
  proof (cases "ah \<in> set (available_apparent_horizons sim_hor)")
    case False
    then show ?thesis using Cons.IH[OF rest, of w] by (simp add: requested_available_def)
  next
    case True
    with Cons.prems obtain h where h: "get_apparent_horizon sim_hor ah = Inr h"
      by (cases "get_apparent_horizon sim_hor ah") (auto simp: provider_answers_Cons)
    let ?w1 = "debug lg clk (''Reading horizon '' @ py_str ah) w"
    let ?w2 = "plt_scatter (ah_cctk_iteration_t h)
                 (replicate (length (ah_cctk_iteration_t h)) ah) ''o'' 0.1 ?w1"
    have step: "plot_horizons lg clk sim_hor (ah # rest) w = plot_horizons lg clk sim_hor rest ?w2"
      using True h by (simp add: concat_replicate_single Let_def)
    have ser: "series_of sim_hor ah =
        \<lparr>sc_x = ah_cctk_iteration_t h, sc_y = replicate (length (ah_cctk_iteration_t h)) ah,
         sc_marker = ''o'', sc_s = 0.1\<rparr>"
      using h by (simp add: series_of_def Let_def)
    show ?thesis
      unfolding step using Cons.IH[OF rest, of ?w2] True
      by (simp add: ser requested_available_def)
  qed
qed

lemma plot_horizons_files: "files (fst (plot_horizons lg clk sim_hor hs w)) = files w"
  by (induction hs arbitrary: w) (auto simp: Let_def split: sum.splits)



lemma plot_horizons_messages:
  "provider_answers sim_hor hs \<Longrightarrow>
     map message (stderr (fst (plot_horizons lg clk sim_hor hs w))) =
       map message (stderr w) @
       (if lg \<le> DEBUG
        then map (\<lambda>ah. ''Reading horizon '' @ py_str ah) (requested_available sim_hor hs)
        else [])"
proof (induction hs arbitrary: w)
  case Nil
  show ?case by (simp add: requested_available_def)
next
  case (Cons ah rest)
  from Cons.prems have rest: "provider_answers sim_hor rest"
    by (simp add: provider_answers_Cons)
  show ?case
  proof (cases "ah \<in> set (available_apparent_horizons sim_hor)")
    case False
    then show ?thesis using Cons.IH[OF rest, of w] by (simp add: requested_available_def)
  next
    case True
    with Cons.prems obtain h where h: "get_apparent_horizon sim_hor ah = Inr h"
      by (cases "get_apparent_horizon sim_hor ah") (auto simp: provider_answers_Cons)
    let ?w1 = "debug lg clk (''Reading horizon '' @ py_str ah) w"
    let ?w2 = "plt_scatter (ah_cctk_iteration_t h)
                 (replicate (length (ah_cctk_iteration_t h)) ah) ''o'' 0.1 ?w1"
    have step: "plot_horizons lg clk sim_hor (ah # rest) w = plot_horizons lg clk sim_hor rest ?w2"
      using True h by (simp add: Let_def concat_replicate_single)
    show ?thesis
      unfolding step using Cons.IH[OF rest, of ?w2] True
      by (simp add: requested_available_def debug_messages)
  qed
qed

lemma same_but_time_debug:
  "same_but_time w w' \<Longrightarrow> same_but_time (debug lg clk msg w) (debug lg clk' msg w')"
  by (simp add: same_but_time_def debug_messages debug_levels)

lemma same_but_time_scatter:
  "same_but_time w w' \<Longrightarrow> same_but_time (plt_scatter xs ys m sz w) (plt_scatter xs ys m sz w')"
  by (simp add: same_but_time_def)

lemma plot_horizons_same_but_time:
  "same_but_time w w' \<Longrightarrow>
     same_but_time (fst (plot_horizons lg clk sim_hor hs w)) (fst (plot_horizons lg clk' sim_hor hs w')) \<and>
     snd (plot_horizons lg clk sim_hor hs w) = snd (plot_horizons lg clk' sim_hor hs w')"
proof (induction hs arbitrary: w w')
  case Nil
  then show ?case by simp
next
  case (Cons ah rest)
  let ?m = "''Reading horizon '' @ py_str ah"
  have w1: "same_but_time (debug lg clk ?m w) (debug lg clk' ?m w')"
    using Cons.prems by (rule same_but_time_debug)
  show ?case
  proof (cases "ah \<in> set (available_apparent_horizons sim_hor)")
    case False
    then show ?thesis using Cons.IH[OF Cons.prems] by simp
  next
    case True
    show ?thesis
    proof (cases "get_apparent_horizon sim_hor ah")
      case (Inl e)
      then show ?thesis using True w1 by simp
    next
      case (Inr h)
      show ?thesis
        using True Inr Cons.IH[OF same_but_time_scatter[OF w1]] by (simp add: Let_def)
    qed
  qed
qed

subsection \<open>Labels, limits, ticks and saving\<close>

lemma finish_plot_scatters:
  "scatters (gcf (fst (finish_plot lg clk a name w))) = scatters (gcf w)"
  by (simp add: finish_plot_def Let_def plt_ylabel_def plt_xlabel_def tick_params_y_minor_def
      plt_ylim_def plt_yticks_def save_from_dir_filename_ext_def split: sum.splits)

lemma finish_plot_empty:
  "horizons a = [] \<Longrightarrow> snd (finish_plot lg clk a name w) = Some ValueError"
  by (simp add: finish_plot_def Let_def py_min_def)

lemma finish_plot_nonempty:
  assumes "horizons a \<noteq> []"
  shows "snd (finish_plot lg clk a name w) = None"
    and "gcf (fst (finish_plot lg clk a name w)) =
           (gcf w)\<lparr>xlabel := ''Time'', ylabel := ''Apparent horizon'', y_minor_left := False,
             ylim := Some (Min (set (horizons a)) - 1, Max (set (horizons a)) + 1),
             yticks := Some (horizons a)\<rparr>"
    and "files (fst (finish_plot lg clk a name w)) =
           files w @ [\<lparr>file_path = outdir a @ ''/'' @ name @ ''.'' @ fig_extension a,
                       file_figure = gcf (fst (finish_plot lg clk a name w))\<rparr>]"
  using assms
  by (simp_all add: finish_plot_def Let_def py_min_Min py_max_Max plt_ylabel_def plt_xlabel_def
      tick_params_y_minor_def plt_ylim_def plt_yticks_def save_from_dir_filename_ext_def)

lemma plt_stderr [simp]:
  "stderr (plt_ylabel l w) = stderr w" "stderr (plt_xlabel l w) = stderr w"
  "stderr (tick_params_y_minor b w) = stderr w" "stderr (plt_ylim lo hi w) = stderr w"
  "stderr (plt_yticks ts w) = stderr w" "stderr (save_from_dir_filename_ext d n e w) = stderr w"
  by (simp_all add: plt_ylabel_def plt_xlabel_def tick_params_y_minor_def plt_ylim_def
      plt_yticks_def save_from_dir_filename_ext_def)

lemma finish_plot_messages:
  "horizons a \<noteq> [] \<Longrightarrow>
     map message (stderr (fst (finish_plot lg clk a name w))) =
       map message (stderr w) @
       (if lg \<le> DEBUG then [''Plotting'', ''Plotted'', ''Saving'', ''DONE''] else [])"
  by (simp add: finish_plot_def Let_def py_min_Min py_max_Max debug_messages)




lemma same_but_time_plt:
  assumes "same_but_time w w'"
  shows "same_but_time (plt_ylabel l w) (plt_ylabel l w')"
    and "same_but_time (plt_xlabel l w) (plt_xlabel l w')"
    and "same_but_time (tick_params_y_minor b w) (tick_params_y_minor b w')"
    and "same_but_time (plt_ylim lo hi w) (plt_ylim lo hi w')"
    and "same_but_time (plt_yticks ts w) (plt_yticks ts w')"
    and "same_but_time (save_from_dir_filename_ext d n e w) (save_from_dir_filename_ext d n e w')"
  using assms
  by (simp_all add: same_but_time_def plt_ylabel_def plt_xlabel_def tick_params_y_minor_def
      plt_ylim_def plt_yticks_def save_from_dir_filename_ext_def)

lemma finish_plot_same_but_time:
  assumes "same_but_time w w'"
  shows "same_but_time (fst (finish_plot lg clk a name w)) (fst (finish_plot lg clk' a name w')) \<and>
         snd (finish_plot lg clk a name w) = snd (finish_plot lg clk' a name w')"
proof -
  let ?pre = "\<lambda>c v. tick_params_y_minor False (plt_xlabel ''Time''
                (plt_ylabel ''Apparent horizon'' (debug lg c ''Plotting'' v)))"
  have pre: "same_but_time (?pre clk w) (?pre clk' w')"
    by (intro same_but_time_plt same_but_time_debug assms)
  show ?thesis
  proof (cases "horizons a = []")
    case True
    then show ?thesis using pre by (simp add: finish_plot_def Let_def py_min_def)
  next
    case False
    let ?post = "\<lambda>c v. debug lg c ''DONE'' (save_from_dir_filename_ext (outdir a) name (fig_extension a)
        (debug lg c ''Saving'' (debug lg c ''Plotted'' (plt_yticks (horizons a)
          (plt_ylim (Min (set (horizons a)) - 1) (Max (set (horizons a)) + 1) v)))))"
    have "same_but_time (?post clk (?pre clk w)) (?post clk' (?pre clk' w'))"
      by (intro same_but_time_plt same_but_time_debug pre)
    then show ?thesis using False
      by (simp add: finish_plot_def Let_def py_min_Min py_max_Max)
  qed
qed

subsection \<open>The whole block\<close>

lemma getLogger_enabled: "getLogger a \<le> DEBUG \<longleftrightarrow> verbose a"
  by (simp add: getLogger_def DEBUG_def WARNING_def)

lemma main_not_opened:
  "SimDir (datadir a) (ignore_symlinks a) = Inl e \<Longrightarrow>
     main SimDir clk a = (debug (getLogger a) clk (''Figname: '' @ figname_of a) new_world, Some e)"
  by (simp add: main_def Let_def)

lemma main_opened:
  "SimDir (datadir a) (ignore_symlinks a) = Inr sim_hor \<Longrightarrow>
     main SimDir clk a =
       (case plot_horizons (getLogger a) clk sim_hor (horizons a)
               (debug (getLogger a) clk
                  (''Apparent horizons available: '' @
                     py_str_list (available_apparent_horizons sim_hor))
                  (debug (getLogger a) clk ''Prepared SimDir''
                     (debug (getLogger a) clk (''Figname: '' @ figname_of a) new_world))) of
          (w4, Some e) \<Rightarrow> (w4, Some e)
        | (w4, None) \<Rightarrow> finish_plot (getLogger a) clk a (figname_of a) w4)"
  by (simp add: main_def Let_def)

lemma main_after_loop:
  assumes "SimDir (datadir a) (ignore_symlinks a) = Inr sim_hor"
      and "provider_answers sim_hor (horizons a)"
  obtains w4 where
    "main SimDir clk a = finish_plot (getLogger a) clk a (figname_of a) w4"
    "gcf w4 = new_figure\<lparr>scatters :=
       map (series_of sim_hor) (requested_available sim_hor (horizons a))\<rparr>"
    "files w4 = []"
    "map message (stderr w4) =
       (if verbose a
        then [''Figname: '' @ figname_of a, ''Prepared SimDir'',
              ''Apparent horizons available: '' @
                 py_str_list (available_apparent_horizons sim_hor)] @
             map (\<lambda>ah. ''Reading horizon '' @ py_str ah)
               (requested_available sim_hor (horizons a))
        else [])"
proof -
  define w3 where "w3 = debug (getLogger a) clk
      (''Apparent horizons available: '' @ py_str_list (available_apparent_horizons sim_hor))
      (debug (getLogger a) clk ''Prepared SimDir''
         (debug (getLogger a) clk (''Figname: '' @ figname_of a) (new_world :: 'a world)))"
  define r where "r = plot_horizons (getLogger a) clk sim_hor (horizons a) w3"
  have ok: "snd r = None"
    and g: "gcf (fst r) = (gcf w3)\<lparr>scatters := scatters (gcf w3) @
              map (series_of sim_hor) (requested_available sim_hor (horizons a))\<rparr>"
    and f: "files (fst r) = files w3"
    using plot_horizons_answers[OF assms(2), of "getLogger a" clk w3] by (simp_all add: r_def)
  have m: "map message (stderr (fst r)) = map message (stderr w3) @
       (if getLogger a \<le> DEBUG
        then map (\<lambda>ah. ''Reading horizon '' @ py_str ah) (requested_available sim_hor (horizons a))
        else [])"
    using plot_horizons_messages[OF assms(2), of "getLogger a" clk w3] by (simp add: r_def)
  have r: "r = (fst r, None)" using ok by (cases r) simp
  have "main SimDir clk a =
      (case r of (w4, Some e) \<Rightarrow> (w4, Some e)
               | (w4, None) \<Rightarrow> finish_plot (getLogger a) clk a (figname_of a) w4)"
    unfolding r_def w3_def by (rule main_opened) (rule assms(1))
  then have 1: "main SimDir clk a = finish_plot (getLogger a) clk a (figname_of a) (fst r)"
    by (subst (asm) r) simp
  have 2: "gcf (fst r) = new_figure\<lparr>scatters :=
       map (series_of sim_hor) (requested_available sim_hor (horizons a))\<rparr>"
    using g by (simp add: w3_def new_world_def new_figure_def)
  have 3: "files (fst r) = []"
    using f by (simp add: w3_def new_world_def)
  have 4: "map message (stderr (fst r)) =
       (if verbose a
        then [''Figname: '' @ figname_of a, ''Prepared SimDir'',
              ''Apparent horizons available: '' @
                 py_str_list (available_apparent_horizons sim_hor)] @
             map (\<lambda>ah. ''Reading horizon '' @ py_str ah)
               (requested_available sim_hor (horizons a))
        else [])"
    using m by (simp add: w3_def debug_messages getLogger_enabled new_world_def)
  from 1 2 3 4 show thesis by (rule that)
qed

lemma main_scatters:
  assumes "SimDir (datadir a) (ignore_symlinks a) = Inr sim_hor"
      and "provider_answers sim_hor (horizons a)"
  shows "scatters (gcf (fst (main SimDir clk a))) =
           map (series_of sim_hor) (requested_available sim_hor (horizons a))"
proof -
  from assms obtain w4 where
    "main SimDir clk a = finish_plot (getLogger a) clk a (figname_of a) w4"
    "gcf w4 = new_figure\<lparr>scatters :=
       map (series_of sim_hor) (requested_available sim_hor (horizons a))\<rparr>"
    by (rule main_after_loop)
  then show ?thesis by (simp add: finish_plot_scatters)
qed

lemma main_completes:
  assumes "SimDir (datadir a) (ignore_symlinks a) = Inr sim_hor"
      and "provider_answers sim_hor (horizons a)"
      and "horizons a \<noteq> []"
  shows "snd (main SimDir clk a) = None"
    and "gcf (fst (main SimDir clk a)) =
           \<lparr>scatters = map (series_of sim_hor) (requested_available sim_hor (horizons a)),
            xlabel = ''Time'', ylabel = ''Apparent horizon'', y_minor_left = False,
            ylim = Some (Min (set (horizons a)) - 1, Max (set (horizons a)) + 1),
            yticks = Some (horizons a)\<rparr>"
    and "files (fst (main SimDir clk a)) =
           [\<lparr>file_path = output_path a, file_figure = gcf (fst (main SimDir clk a))\<rparr>]"
    and "map message (stderr (fst (main SimDir clk a))) =
       (if verbose a
        then [''Figname: '' @ figname_of a, ''Prepared SimDir'',
              ''Apparent horizons available: '' @
                 py_str_list (available_apparent_horizons sim_hor)] @
             map (\<lambda>ah. ''Reading horizon '' @ py_str ah)
               (requested_available sim_hor (horizons a)) @
             [''Plotting'', ''Plotted'', ''Saving'', ''DONE'']
        else [])"
proof -
  from assms(1,2) obtain w4 where
    m: "main SimDir clk a = finish_plot (getLogger a) clk a (figname_of a) w4" and
    g: "gcf w4 = new_figure\<lparr>scatters :=
       map (series_of sim_hor) (requested_available sim_hor (horizons a))\<rparr>" and
    f: "files w4 = []" and
    l: "map message (stderr w4) =
       (if verbose a
        then [''Figname: '' @ figname_of a, ''Prepared SimDir'',
              ''Apparent horizons available: '' @
                 py_str_list (available_apparent_horizons sim_hor)] @
             map (\<lambda>ah. ''Reading horizon '' @ py_str ah)
               (requested_available sim_hor (horizons a))
        else [])"
    by (rule main_after_loop)
  show "snd (main SimDir clk a) = None"
    by (simp add: m finish_plot_nonempty(1)[OF assms(3)])
  show "gcf (fst (main SimDir clk a)) =
           \<lparr>scatters = map (series_of sim_hor) (requested_available sim_hor (horizons a)),
            xlabel = ''Time'', ylabel = ''Apparent horizon'', y_minor_left = False,
            ylim = Some (Min (set (horizons a)) - 1, Max (set (horizons a)) + 1),
            yticks = Some (horizons a)\<rparr>"
    by (simp add: m finish_plot_nonempty(2)[OF assms(3)] g new_figure_def)
  show "files (fst (main SimDir clk a)) =
           [\<lparr>file_path = output_path a, file_figure = gcf (fst (main SimDir clk a))\<rparr>]"
    unfolding m by (subst finish_plot_nonempty(3)[OF assms(3)]) (simp add: f output_path_def)
  show "map message (stderr (fst (main SimDir clk a))) =
       (if verbose a
        then [''Figname: '' @ figname_of a, ''Prepared SimDir'',
              ''Apparent horizons available: '' @
                 py_str_list (available_apparent_horizons sim_hor)] @
             map (\<lambda>ah. ''Reading horizon '' @ py_str ah)
               (requested_available sim_hor (horizons a)) @
             [''Plotting'', ''Plotted'', ''Saving'', ''DONE'']
        else [])"
    by (simp add: m finish_plot_messages[OF assms(3)] l getLogger_enabled)
qed



lemma main_same_but_time:
  "same_but_time (fst (main SimDir clk a)) (fst (main SimDir clk' a)) \<and>
   snd (main SimDir clk a) = snd (main SimDir clk' a)"
proof (cases "SimDir (datadir a) (ignore_symlinks a)")
  case (Inl e)
  have "same_but_time (new_world :: 'a world) new_world" by (simp add: same_but_time_def)
  then show ?thesis using Inl by (simp add: main_not_opened same_but_time_debug)
next
  case (Inr sim_hor)
  let ?w3 = "\<lambda>c. debug (getLogger a) c
      (''Apparent horizons available: '' @ py_str_list (available_apparent_horizons sim_hor))
      (debug (getLogger a) c ''Prepared SimDir''
         (debug (getLogger a) c (''Figname: '' @ figname_of a) (new_world :: 'a world)))"
  define r where "r = plot_horizons (getLogger a) clk sim_hor (horizons a) (?w3 clk)"
  define r' where "r' = plot_horizons (getLogger a) clk' sim_hor (horizons a) (?w3 clk')"
  have "same_but_time (new_world :: 'a world) new_world" by (simp add: same_but_time_def)
  then have "same_but_time (?w3 clk) (?w3 clk')" by (intro same_but_time_debug)
  then have loop: "same_but_time (fst r) (fst r')" "snd r = snd r'"
    unfolding r_def r'_def using plot_horizons_same_but_time by blast+
  have m: "main SimDir clk a =
      (case r of (w4, Some e) \<Rightarrow> (w4, Some e)
               | (w4, None) \<Rightarrow> finish_plot (getLogger a) clk a (figname_of a) w4)"
    unfolding r_def by (rule main_opened) (rule Inr)
  have m': "main SimDir clk' a =
      (case r' of (w4, Some e) \<Rightarrow> (w4, Some e)
               | (w4, None) \<Rightarrow> finish_plot (getLogger a) clk' a (figname_of a) w4)"
    unfolding r'_def by (rule main_opened) (rule Inr)
  show ?thesis
  proof (cases "snd r")
    case None
    then have "r = (fst r, None)" "r' = (fst r', None)" using loop(2) by (cases r; cases r'; simp)+
    then have "main SimDir clk a = finish_plot (getLogger a) clk a (figname_of a) (fst r)"
      "main SimDir clk' a = finish_plot (getLogger a) clk' a (figname_of a) (fst r')"
      using m m' by (metis case_prod_conv option.simps(4))+
    then show ?thesis using finish_plot_same_but_time[OF loop(1)] by simp
  next
    case (Some e)
    then have "r = (fst r, Some e)" "r' = (fst r', Some e)" using loop(2) by (cases r; cases r'; simp)+
    then have "main SimDir clk a = (fst r, Some e)" "main SimDir clk' a = (fst r', Some e)"
      using m m' by (metis case_prod_conv option.simps(5))+
    then show ?thesis using loop(1) by simp
  qed
qed

lemma main_files_if_done:
  assumes "snd (main SimDir clk a) = None"
  shows "map file_path (files (fst (main SimDir clk a))) = [output_path a]"
proof (cases "SimDir (datadir a) (ignore_symlinks a)")
  case (Inl e)
  then show ?thesis using assms by (simp add: main_not_opened)
next
  case (Inr sim_hor)
  define w3 where "w3 = debug (getLogger a) clk
      (''Apparent horizons available: '' @ py_str_list (available_apparent_horizons sim_hor))
      (debug (getLogger a) clk ''Prepared SimDir''
         (debug (getLogger a) clk (''Figname: '' @ figname_of a) (new_world :: 'a world)))"
  define r where "r = plot_horizons (getLogger a) clk sim_hor (horizons a) w3"
  have f: "files (fst r) = []"
    unfolding r_def by (simp add: plot_horizons_files w3_def new_world_def)
  have m: "main SimDir clk a =
      (case r of (w4, Some e) \<Rightarrow> (w4, Some e)
               | (w4, None) \<Rightarrow> finish_plot (getLogger a) clk a (figname_of a) w4)"
    unfolding r_def w3_def by (rule main_opened) (rule Inr)
  have none: "snd r = None" using assms m by (cases r; cases "snd r") auto
  then have fin: "main SimDir clk a = finish_plot (getLogger a) clk a (figname_of a) (fst r)"
    using m by (cases r) auto
  have ne: "horizons a \<noteq> []"
    using assms finish_plot_empty[of a "getLogger a" clk "figname_of a" "fst r"] fin by auto
  show ?thesis
    unfolding fin by (subst finish_plot_nonempty(3)[OF ne]) (simp add: f output_path_def)
qed

lemma debug_extends: "\<exists>more. stderr (debug lg clk msg w) = stderr w @ more"
  by (simp add: debug_def)

lemma plot_horizons_extends:
  "\<exists>more. stderr (fst (plot_horizons lg clk sim_hor hs w)) = stderr w @ more"
proof (induction hs arbitrary: w)
  case Nil
  show ?case by simp
next
  case (Cons ah rest)
  let ?w1 = "debug lg clk (''Reading horizon '' @ py_str ah) w"
  obtain m1 where m1: "stderr ?w1 = stderr w @ m1" using debug_extends by blast
  show ?case
  proof (cases "ah \<in> set (available_apparent_horizons sim_hor)")
    case False
    then show ?thesis using Cons.IH[of w] by simp
  next
    case True
    show ?thesis
    proof (cases "get_apparent_horizon sim_hor ah")
      case (Inl e)
      then show ?thesis using True m1 by simp
    next
      case (Inr h)
      let ?w2 = "plt_scatter (ah_cctk_iteration_t h)
                   (concat (replicate (length (ah_cctk_iteration_t h)) [ah])) ''o'' 0.1 ?w1"
      obtain m2 where "stderr (fst (plot_horizons lg clk sim_hor rest ?w2)) = stderr ?w2 @ m2"
        using Cons.IH[of ?w2] by blast
      then have "stderr (fst (plot_horizons lg clk sim_hor rest ?w2)) = stderr w @ (m1 @ m2)"
        using m1 by simp
      then show ?thesis using True Inr by (simp add: Let_def)
    qed
  qed
qed

lemma finish_plot_extends:
  "\<exists>more. stderr (fst (finish_plot lg clk a name w)) = stderr w @ more"
  by (simp add: finish_plot_def Let_def debug_def split: sum.splits)

lemma main_first_message:
  assumes "verbose a"
  shows "take 1 (map message (stderr (fst (main SimDir clk a)))) = [''Figname: '' @ figname_of a]"
proof -
  define w1 where "w1 = debug (getLogger a) clk (''Figname: '' @ figname_of a) (new_world :: 'a world)"
  have first: "map message (stderr w1) = [''Figname: '' @ figname_of a]"
    using assms by (simp add: w1_def debug_messages getLogger_enabled new_world_def)
  have "\<exists>more. stderr (fst (main SimDir clk a)) = stderr w1 @ more"
  proof (cases "SimDir (datadir a) (ignore_symlinks a)")
    case (Inl e)
    then show ?thesis by (simp add: main_not_opened w1_def)
  next
    case (Inr sim_hor)
    define w3 where "w3 = debug (getLogger a) clk
      (''Apparent horizons available: '' @ py_str_list (available_apparent_horizons sim_hor))
      (debug (getLogger a) clk ''Prepared SimDir'' w1)"
    define r where "r = plot_horizons (getLogger a) clk sim_hor (horizons a) w3"
    obtain m3 where m3: "stderr w3 = stderr w1 @ m3"
      unfolding w3_def by (metis debug_extends append.assoc)
    obtain m4 where m4: "stderr (fst r) = stderr w3 @ m4"
      unfolding r_def using plot_horizons_extends by blast
    obtain m5 where m5: "stderr (fst (finish_plot (getLogger a) clk a (figname_of a) (fst r))) =
        stderr (fst r) @ m5"
      using finish_plot_extends by blast
    have m: "main SimDir clk a =
      (case r of (w4, Some e) \<Rightarrow> (w4, Some e)
               | (w4, None) \<Rightarrow> finish_plot (getLogger a) clk a (figname_of a) w4)"
      unfolding r_def w3_def w1_def by (rule main_opened) (rule Inr)
    show ?thesis
    proof (cases "snd r")
      case None
      then have "main SimDir clk a = finish_plot (getLogger a) clk a (figname_of a) (fst r)"
        using m by (cases r) auto
      then show ?thesis using m3 m4 m5 by simp
    next
      case (Some e)
      then have "fst (main SimDir clk a) = fst r" using m by (cases r) auto
      then show ?thesis using m3 m4 by simp
    qed
  qed
  then obtain more where "stderr (fst (main SimDir clk a)) = stderr w1 @ more" by blast
  then have "map message (stderr (fst (main SimDir clk a))) =
      (''Figname: '' @ figname_of a) # map message more"
    using first by simp
  then show ?thesis by simp
qed

lemma example_opened:
  "example_SimDir (datadir b) (ignore_symlinks b) = Inr example_horizons"
  by (simp add: example_SimDir_def)

lemma example_answers: "provider_answers example_horizons hs"
  by (auto simp: provider_answers_def requested_available_def example_horizons_def)

lemma series_of_Inr:
  "get_apparent_horizon sim_hor ah = Inr h \<Longrightarrow>
     series_of sim_hor ah =
       \<lparr>sc_x = ah_cctk_iteration_t h, sc_y = replicate (length (ah_cctk_iteration_t h)) ah,
        sc_marker = ''o'', sc_s = 0.1\<rparr>"
  by (simp add: series_of_def Let_def)

lemma provider_answers_Inr:
  assumes "provider_answers sim_hor hs" "ah \<in> set hs"
    "ah \<in> set (available_apparent_horizons sim_hor)"
  obtains h where "get_apparent_horizon sim_hor ah = Inr h"
  using assms
  by (cases "get_apparent_horizon sim_hor ah") (auto simp: provider_answers_def requested_available_def)

subsection \<open>The series of the plot\<close>

text \<open>C1. Whatever the simulation has and whatever is requested: when the directory opens
  and the provider answers for the requested horizons it lists, the series drawn stand one
  to one, in order, to the requested horizons that the simulation has, each made of that
  horizon's times at that horizon's height; and no series has a point at the height of a
  requested horizon that the simulation lacks.\<close>

theorem one_series_per_available_request:
  assumes "SimDir (datadir a) (ignore_symlinks a) = Inr sim_hor"
      and "provider_answers sim_hor (horizons a)"
  shows "list_all2
           (\<lambda>s ah. \<exists>h. get_apparent_horizon sim_hor ah = Inr h \<and>
                       sc_x s = ah_cctk_iteration_t h \<and>
                       sc_y s = replicate (length (ah_cctk_iteration_t h)) ah)
           (scatters (gcf (fst (main SimDir clock a))))
           (filter (\<lambda>ah. ah \<in> set (available_apparent_horizons sim_hor)) (horizons a)) \<and>
         (\<forall>ah \<in> set (horizons a). ah \<notin> set (available_apparent_horizons sim_hor) \<longrightarrow>
            (\<forall>s \<in> set (scatters (gcf (fst (main SimDir clock a)))). ah \<notin> set (sc_y s)))"
proof -
  let ?plotted = "filter (\<lambda>ah. ah \<in> set (available_apparent_horizons sim_hor)) (horizons a)"
  have sc: "scatters (gcf (fst (main SimDir clock a))) = map (series_of sim_hor) ?plotted"
    using main_scatters[of SimDir a, OF assms] by (simp add: requested_available_def)
  have each: "\<exists>h. get_apparent_horizon sim_hor ah = Inr h \<and>
                 sc_x (series_of sim_hor ah) = ah_cctk_iteration_t h \<and>
                 sc_y (series_of sim_hor ah) = replicate (length (ah_cctk_iteration_t h)) ah"
    if "ah \<in> set ?plotted" for ah
  proof -
    from that have "ah \<in> set (horizons a)" "ah \<in> set (available_apparent_horizons sim_hor)"
      by simp_all
    with assms(2) obtain h where "get_apparent_horizon sim_hor ah = Inr h"
      by (rule provider_answers_Inr)
    then show ?thesis by (simp add: series_of_Inr)
  qed
  have first: "list_all2
           (\<lambda>s ah. \<exists>h. get_apparent_horizon sim_hor ah = Inr h \<and>
                       sc_x s = ah_cctk_iteration_t h \<and>
                       sc_y s = replicate (length (ah_cctk_iteration_t h)) ah)
           (map (series_of sim_hor) ?plotted) ?plotted"
    unfolding list_all2_map1 list_all2_same using each by blast
  have second: "ah \<notin> set (sc_y s)"
    if "ah \<notin> set (available_apparent_horizons sim_hor)"
      and "s \<in> set (map (series_of sim_hor) ?plotted)" for ah s
  proof -
    from that(2) obtain b where b: "b \<in> set ?plotted" "s = series_of sim_hor b" by auto
    from each[OF b(1)] b(2) have "set (sc_y s) \<subseteq> {b}" by auto
    moreover from b(1) that(1) have "b \<noteq> ah" by auto
    ultimately show ?thesis by auto
  qed
  show ?thesis unfolding sc using first second by blast
qed

theorem one_series_per_available_request_witness:
  "example_SimDir (datadir example_args) (ignore_symlinks example_args) = Inr example_horizons \<and>
   provider_answers example_horizons (horizons example_args) \<and>
   horizons example_args = [2, 5] \<and>
   available_apparent_horizons example_horizons = [1, 2, 3] \<and>
   list_all2
     (\<lambda>s ah. \<exists>h. get_apparent_horizon example_horizons ah = Inr h \<and>
                 sc_x s = ah_cctk_iteration_t h \<and>
                 sc_y s = replicate (length (ah_cctk_iteration_t h)) ah)
     (scatters (gcf (fst (main example_SimDir example_clock example_args)))) [2]"
  using one_series_per_available_request[of example_SimDir example_args example_horizons
          example_clock]
  by (simp add: example_opened example_answers) (simp add: example_args_def example_horizons_def)

lemma other_opened: "other_SimDir (datadir b) (ignore_symlinks b) = Inr other_horizons"
  by (simp add: other_SimDir_def)

lemma other_answers: "provider_answers other_horizons hs"
  by (auto simp: provider_answers_def requested_available_def other_horizons_def)

subsection \<open>The y axis\<close>





subsection \<open>The figure name\<close>

text \<open>C4. The default figure name of line 61, which is the figure name when no name is given
  on the command line, is \<open>ah_\<close>, then the decimal representations of the requested numbers
  in request order with an underscore between neighbours, then \<open>_found\<close>.\<close>

theorem default_figure_name:
  assumes "figname a = None"
  shows "default_figname a = ''ah_'' @ underscore_joined (map decimal (horizons a)) @ ''_found'' \<and>
         figname_of a = ''ah_'' @ underscore_joined (map decimal (horizons a)) @ ''_found''"
proof -
  have "figname_of a = default_figname a"
    using assms by (simp add: figname_of_def get_figname_def)
  then show ?thesis by (simp add: default_figname_spec)
qed

theorem default_figure_name_witness:
  "figname example_args = None \<and> horizons example_args = [2, 5] \<and>
   figname_of example_args = ''ah_2_5_found''"
proof -
  have none: "figname example_args = None" by (simp add: example_args_def)
  have "underscore_joined (map decimal (horizons example_args)) = ''2_5''"
    by (simp add: example_args_def decimal_def decimal_nat.simps digit_char_def)
  with default_figure_name[OF none] none show ?thesis
    by (simp add: example_args_def)
qed

lemma plotted_position:
  "ah \<in> set hs \<Longrightarrow> P ah \<Longrightarrow> \<exists>i < length (filter P hs). filter P hs ! i = ah"
proof -
  assume "ah \<in> set hs" "P ah"
  then have "ah \<in> set (filter P hs)" by simp
  then show ?thesis unfolding in_set_conv_nth[of ah "filter P hs"] .
qed

subsection \<open>The points of a series\<close>

text \<open>C5. For a requested horizon that the simulation has, the series drawn at its places
  among the plotted requests have one point per time of its detection series: the x
  coordinate is that time, the y coordinate is the horizon's number, and the marker size
  is 0.1.\<close>

theorem series_points:
  assumes "SimDir (datadir a) (ignore_symlinks a) = Inr sim_hor"
      and "provider_answers sim_hor (horizons a)"
      and "ah \<in> set (horizons a)"
      and "ah \<in> set (available_apparent_horizons sim_hor)"
      and "get_apparent_horizon sim_hor ah = Inr h"
      and "plotted = filter (\<lambda>ah. ah \<in> set (available_apparent_horizons sim_hor)) (horizons a)"
      and "drawn = scatters (gcf (fst (main SimDir clock a)))"
  shows "length drawn = length plotted \<and>
         (\<exists>i < length plotted. plotted ! i = ah) \<and>
         (\<forall>i < length plotted. plotted ! i = ah \<longrightarrow>
            length (sc_x (drawn ! i)) = length (ah_cctk_iteration_t h) \<and>
            length (sc_y (drawn ! i)) = length (ah_cctk_iteration_t h) \<and>
            (\<forall>j < length (ah_cctk_iteration_t h).
               sc_x (drawn ! i) ! j = ah_cctk_iteration_t h ! j \<and> sc_y (drawn ! i) ! j = ah) \<and>
            sc_marker (drawn ! i) = ''o'' \<and> sc_s (drawn ! i) = 0.1)"
proof -
  have sc: "drawn = map (series_of sim_hor) plotted"
    using main_scatters[of SimDir a, OF assms(1,2)] assms(6,7)
    by (simp add: requested_available_def)
  have pos: "\<exists>i < length plotted. plotted ! i = ah"
    unfolding assms(6) using assms(3,4) by (rule plotted_position)
  have at: "drawn ! i = series_of sim_hor ah" if "i < length plotted" "plotted ! i = ah" for i
    using that by (simp add: sc)
  show ?thesis
    using pos at by (auto simp: sc series_of_Inr[OF assms(5)])
qed

theorem series_points_witness:
  "horizons example_args = [2, 5] \<and>
   available_apparent_horizons example_horizons = [1, 2, 3] \<and>
   get_apparent_horizon example_horizons 2 = Inr \<lparr>ah_cctk_iteration_t = [0.5, 1, 1.5]\<rparr> \<and>
   length (scatters (gcf (fst (main example_SimDir example_clock example_args)))) = 1 \<and>
   length (sc_x (scatters (gcf (fst (main example_SimDir example_clock example_args))) ! 0)) = 3 \<and>
   sc_x (scatters (gcf (fst (main example_SimDir example_clock example_args))) ! 0) ! 1 = 1 \<and>
   sc_y (scatters (gcf (fst (main example_SimDir example_clock example_args))) ! 0) ! 1 = 2 \<and>
   sc_s (scatters (gcf (fst (main example_SimDir example_clock example_args))) ! 0) = 0.1"
proof -
  define found :: "real list" where "found = [0.5, 1, 1.5]"
  have h: "get_apparent_horizon example_horizons 2 = Inr \<lparr>ah_cctk_iteration_t = found\<rparr>"
    by (simp add: example_horizons_def found_def)
  have p: "[2] = filter (\<lambda>ah. ah \<in> set (available_apparent_horizons example_horizons))
              (horizons example_args)"
    by (simp add: example_horizons_def example_args_def)
  have r: "2 \<in> set (horizons example_args)" "2 \<in> set (available_apparent_horizons example_horizons)"
    by (simp_all add: example_horizons_def example_args_def)
  define drawn where "drawn = scatters (gcf (fst (main example_SimDir example_clock example_args)))"
  have all: "length drawn = length [2::int] \<and>
         (\<exists>i < length [2::int]. [2::int] ! i = 2) \<and>
         (\<forall>i < length [2::int]. [2::int] ! i = 2 \<longrightarrow>
            length (sc_x (drawn ! i)) = length (ah_cctk_iteration_t \<lparr>ah_cctk_iteration_t = found\<rparr>) \<and>
            length (sc_y (drawn ! i)) = length (ah_cctk_iteration_t \<lparr>ah_cctk_iteration_t = found\<rparr>) \<and>
            (\<forall>j < length (ah_cctk_iteration_t \<lparr>ah_cctk_iteration_t = found\<rparr>).
               sc_x (drawn ! i) ! j = ah_cctk_iteration_t \<lparr>ah_cctk_iteration_t = found\<rparr> ! j \<and>
               sc_y (drawn ! i) ! j = 2) \<and>
            sc_marker (drawn ! i) = ''o'' \<and> sc_s (drawn ! i) = 0.1)"
    using example_opened example_answers r h p drawn_def by (rule series_points)
  then have len: "length drawn = 1" by simp
  from all have at0: "length (sc_x (drawn ! 0)) = length found \<and>
            (\<forall>j < length found. sc_x (drawn ! 0) ! j = found ! j \<and> sc_y (drawn ! 0) ! j = 2) \<and>
            sc_s (drawn ! 0) = 0.1"
    by simp
  then have "sc_x (drawn ! 0) ! 1 = found ! 1 \<and> sc_y (drawn ! 0) ! 1 = 2"
    by (simp add: found_def)
  with at0 len have "length drawn = 1 \<and> length (sc_x (drawn ! 0)) = 3 \<and>
      sc_x (drawn ! 0) ! 1 = 1 \<and> sc_y (drawn ! 0) ! 1 = 2 \<and> sc_s (drawn ! 0) = 0.1"
    by (simp add: found_def)
  moreover have "horizons example_args = [2, 5]" by (simp add: example_args_def)
  moreover have "available_apparent_horizons example_horizons = [1, 2, 3]"
    by (simp add: example_horizons_def)
  ultimately show ?thesis using h unfolding drawn_def found_def by blast
qed



subsection \<open>Two runs\<close>

text \<open>C8. Two runs of the same command on the same data provider, at different times, write
  the same files with the same figure, end the same way and log the same messages: only
  the times stamped on the log lines can differ.\<close>

theorem same_output_at_any_time:
  "files (fst (main SimDir clock a)) = files (fst (main SimDir clock' a)) \<and>
   gcf (fst (main SimDir clock a)) = gcf (fst (main SimDir clock' a)) \<and>
   snd (main SimDir clock a) = snd (main SimDir clock' a) \<and>
   map message (stderr (fst (main SimDir clock a))) =
     map message (stderr (fst (main SimDir clock' a)))"
  using main_same_but_time[of SimDir clock a clock'] by (simp add: same_but_time_def)

theorem same_output_at_any_time_witness:
  "files (fst (main example_SimDir example_clock example_args)) =
     files (fst (main example_SimDir later_clock example_args)) \<and>
   snd (main example_SimDir example_clock example_args) =
     snd (main example_SimDir later_clock example_args) \<and>
   example_clock 0 \<noteq> later_clock 0"
  using same_output_at_any_time[of example_SimDir example_clock example_args later_clock]
  by (simp add: example_clock_def later_clock_def)

text \<open>C10. The name of the saved file is a function of the command line alone: two completed
  runs of the same command, on any two simulations and at any two times, write the same
  path; and a verbose run logs the figure name first, before the directory is opened.\<close>

theorem figure_name_from_command_line:
  assumes "snd (main SimDir clock a) = None"
      and "snd (main SimDir' clock' a) = None"
  shows "map file_path (files (fst (main SimDir clock a))) = [output_path a] \<and>
         map file_path (files (fst (main SimDir' clock' a))) = [output_path a] \<and>
         (verbose a \<longrightarrow>
            take 1 (map message (stderr (fst (main SimDir clock a)))) =
              [''Figname: '' @ figname_of a] \<and>
            take 1 (map message (stderr (fst (main SimDir' clock' a)))) =
              [''Figname: '' @ figname_of a])"
  using main_files_if_done[OF assms(1)] main_files_if_done[OF assms(2)]
    main_first_message[of a SimDir clock] main_first_message[of a SimDir' clock']
  by simp

theorem figure_name_from_command_line_witness:
  "snd (main example_SimDir example_clock example_args) = None \<and>
   snd (main other_SimDir later_clock example_args) = None \<and>
   available_apparent_horizons example_horizons \<noteq> available_apparent_horizons other_horizons \<and>
   map file_path (files (fst (main example_SimDir example_clock example_args))) =
     map file_path (files (fst (main other_SimDir later_clock example_args))) \<and>
   map file_path (files (fst (main example_SimDir example_clock example_args))) =
     [''./ah_2_5_found.png'']"
proof -
  have ne: "horizons example_args \<noteq> []" by (simp add: example_args_def)
  have 1: "snd (main example_SimDir example_clock example_args) = None"
    using example_opened example_answers ne by (rule main_completes(1))
  have 2: "snd (main other_SimDir later_clock example_args) = None"
    using other_opened other_answers ne by (rule main_completes(1))
  have none: "figname example_args = None" by (simp add: example_args_def)
  have "underscore_joined (map decimal (horizons example_args)) = ''2_5''"
    by (simp add: example_args_def decimal_def decimal_nat.simps digit_char_def)
  then have "output_path example_args = ''./ah_2_5_found.png''"
    by (simp add: output_path_def figname_of_def get_figname_def default_figname_spec none)
       (simp add: example_args_def)
  with figure_name_from_command_line[OF 1 2] 1 2 show ?thesis
    by (simp add: example_horizons_def other_horizons_def)
qed





subsection \<open>A requested horizon that the simulation lacks\<close>



subsection \<open>A horizon requested several times\<close>



end
